theory Spec2Isabelle
  imports Main
begin

section \<open>Values of the language\<close>

subsection \<open>Numbers\<close>

text \<open>
  A Number is an IEEE 754 double. The program only ever builds the Numbers \<open>0\<close>,
  \<open>count + 1\<close> and \<open>items.length + 1\<close>, so every Number that occurs is a non-negative
  integer and is modelled by that integer.

  \<open>plus_one x\<close> is the Number \<open>x + 1\<close>, rounded to the nearest double with ties going to
  the even significand. Below \<open>2 ^ 53\<close> every integer is a double and the sum is exact.
  From \<open>2 ^ 53\<close> to \<open>2 ^ 54\<close> the doubles are the even integers, \<open>x + 1\<close> lies half way
  between \<open>x\<close> and \<open>x + 2\<close>, and the one whose significand \<open>x div 2\<close> (resp.
  \<open>x div 2 + 1\<close>) is even wins. From \<open>2 ^ 54\<close> on neighbouring doubles are at least 4
  apart and the sum rounds back to \<open>x\<close>.
\<close>

definition plus_one :: "nat \<Rightarrow> nat" where
  "plus_one x =
     (if x < 2 ^ 53 then x + 1
      else if x < 2 ^ 54 \<and> odd (x div 2) then x + 2
      else x)"

text \<open>
  \<open>number_to_string\<close> is the conversion that \<open>+\<close> applies to a Number operand when the
  other operand is a string: for an integer below \<open>10 ^ 21\<close> the decimal digits without
  leading zeros. Larger Numbers are printed with an exponent; they do not occur, since the
  count never exceeds \<open>2 ^ 53\<close> and the length of an array never exceeds \<open>2 ^ 32 - 1\<close>.
\<close>

definition digit :: "nat \<Rightarrow> char" where
  "digit d = char_of (48 + d)"

fun number_to_string :: "nat \<Rightarrow> string" where
  "number_to_string n =
     (if n < 10 then [digit n] else number_to_string (n div 10) @ [digit (n mod 10)])"

subsection \<open>Element trees\<close>

text \<open>
  An array is an object: it lives in the heap under an address, and a variable holds the
  address. Its content is the list of its elements, at the indices from 0. The largest
  index of an array is \<open>2 ^ 32 - 2\<close>, so that an array has at most \<open>max_length\<close>
  elements. Storage is taken to suffice.
\<close>

type_synonym addr = nat

definition max_length :: nat where
  "max_length = 2 ^ 32 - 1"

text \<open>
  The array literal \<open>[...items, x]\<close> has the elements of \<open>items\<close> at their indices and
  stores \<open>x\<close> under the name \<open>items.length\<close>. When \<open>items\<close> is full, that name is
  \<open>2 ^ 32 - 1\<close>, which is not an index: \<open>x\<close> becomes a property that is no element,
  the length stays as it is, and neither \<open>length\<close> nor \<open>map\<close> nor a later spread sees
  \<open>x\<close>.
\<close>

definition spread_with :: "string list \<Rightarrow> string \<Rightarrow> string list" where
  "spread_with xs x = (if length xs < max_length then xs @ [x] else xs)"

text \<open>
  The two event handlers of the program are closures. A closure is represented by its
  code together with the value of the variable it captured when the component function
  ran: \<open>Counter_onClick count\<close> is \<open>() => setCount(count + 1)\<close>, and
  \<open>aggiungiElemento items\<close> is the function of that name inside \<open>Lista\<close>.
\<close>

datatype handler = Counter_onClick nat | aggiungiElemento addr

datatype property = className string | key nat | onClick handler

text \<open>
  \<open>e(tag, props, child, ...)\<close> builds \<open>Element tag props [child, ...]\<close>; \<open>null\<close> props
  are the empty list and a string child is a \<open>Text\<close> node.
\<close>

datatype element = Text string | Element string "property list" "element list"

section \<open>The rendering library, as the program uses it\<close>

text \<open>
  The memory of a page: the heap of array objects, and one state cell for each call of
  \<open>React.useState\<close> in a mounted component. A cell is \<open>None\<close> until the component
  has rendered for the first time. The cell of \<open>Lista\<close> holds a reference to an array.
\<close>

record memory =
  heap :: "addr \<Rightarrow> string list option"
  next_addr :: addr
  Counter_cell :: "nat option"
  Lista_cell :: "addr option"

definition empty_memory :: memory where
  "empty_memory =
     \<lparr>heap = (\<lambda>a. None), next_addr = 0, Counter_cell = None, Lista_cell = None\<rparr>"

text \<open>An array literal builds a new array object at an address not used before.\<close>

definition new_array :: "string list \<Rightarrow> memory \<Rightarrow> addr \<times> memory" where
  "new_array xs m =
     (next_addr m, m\<lparr>heap := (heap m)(next_addr m := Some xs), next_addr := Suc (next_addr m)\<rparr>)"

text \<open>
  \<open>React.useState(initial)\<close> returns the content of the cell, which is \<open>initial\<close> on
  the first render only.
\<close>

definition useState :: "'a \<Rightarrow> 'a option \<Rightarrow> 'a \<times> 'a option" where
  "useState initial cell =
     (case cell of None \<Rightarrow> (initial, Some initial) | Some v \<Rightarrow> (v, Some v))"

section \<open>The components of script.js\<close>

text \<open>
  A component is a function from the memory to the tree it returns and the memory it
  leaves. \<open>e(Counter)\<close> stands for the tree that the library gets by calling \<open>Counter\<close>;
  the components of a tree are called in document order. Strings are sequences of bytes,
  in UTF-8 where the source is not ASCII.
\<close>

definition Header :: element where
  "Header =
     Element ''header'' []
       [Element ''h1'' [] [Text ''Il mio sito con React''],
        Element ''p'' []
          [Text (''Senza JSX, senza build '' @ [CHR 0xF0, CHR 0x9F, CHR 0x98, CHR 0x8E])]]"

definition Counter :: "memory \<Rightarrow> element \<times> memory" where
  "Counter m =
     (let (count, cell) = useState 0 (Counter_cell m) in
      (Element ''div'' []
         [Element ''h2'' [] [Text ''Contatore''],
          Element ''p'' [] [Text (''Valore: '' @ number_to_string count)],
          Element ''button'' [onClick (Counter_onClick count)] [Text ''Aumenta'']],
       m\<lparr>Counter_cell := cell\<rparr>))"

text \<open>
  \<open>Lista\<close> evaluates the array literal of the seed on every render; \<open>useState\<close>
  keeps it on the first render only. \<open>items.map\<close> reads the array that \<open>items\<close> refers
  to and passes each entry with its index, counted from 0.
\<close>

definition Lista :: "memory \<Rightarrow> (element \<times> memory) option" where
  "Lista m =
     (let (seed, m1) = new_array [''ALALALALA''] m;
          (items, cell) = useState seed (Lista_cell m1);
          m2 = m1\<lparr>Lista_cell := cell\<rparr>
      in case heap m2 items of
           None \<Rightarrow> None
         | Some xs \<Rightarrow>
             Some (Element ''div'' []
                     [Element ''h2'' [] [Text ''Lista dinamica''],
                      Element ''ul'' []
                        (map (\<lambda>(index, item). Element ''li'' [key index] [Text item])
                           (enumerate 0 xs)),
                      Element ''button'' [onClick (aggiungiElemento items)] [Text ''Aggiungi'']],
                   m2))"

definition Footer :: element where
  "Footer =
     Element ''footer'' []
       [Element ''p'' [] [Text ([CHR 0xC2, CHR 0xA9] @ '' 2026 - React CDN'')]]"

definition App :: "memory \<Rightarrow> (element \<times> memory) option" where
  "App m =
     (let (counter, m1) = Counter m in
      case Lista m1 of
        None \<Rightarrow> None
      | Some (lista, m2) \<Rightarrow>
          Some (Element ''div'' []
                  [Header,
                   Element ''main'' [] [counter, Element ''hr'' [] [], lista],
                   Footer],
                m2))"

text \<open>
  Calling a handler. \<open>setCount\<close> and \<open>setItems\<close> store their argument in the cell of
  the component. The spread \<open>[...items, x]\<close> reads the array \<open>items\<close> refers to and
  builds a new array; \<open>items.length + 1\<close> is a sum of Numbers, as \<open>count + 1\<close> is.
\<close>

fun call :: "handler \<Rightarrow> memory \<Rightarrow> memory option" where
  "call (Counter_onClick count) m = Some (m\<lparr>Counter_cell := Some (plus_one count)\<rparr>)"
| "call (aggiungiElemento items) m =
     (case heap m items of
        None \<Rightarrow> None
      | Some xs \<Rightarrow>
          (let (a, m1) =
                 new_array
                   (spread_with xs (''Elemento '' @ number_to_string (plus_one (length xs)))) m
           in Some (m1\<lparr>Lista_cell := Some a\<rparr>)))"

section \<open>The component of the Home page\<close>

definition Home :: element where
  "Home =
     Element ''div'' [className ''home'']
       [Element ''header'' [] [Element ''h1'' [] [Text ''Contapersone'']]]"

definition Home_App :: "memory \<Rightarrow> (element \<times> memory) option" where
  "Home_App m = Some (Home, m)"

section \<open>Mounting and clicking\<close>

text \<open>
  A root holds the memory of the page and the tree of the last render, whose handlers
  are the ones a click reaches. \<open>createRoot(...).render(e(C))\<close> renders \<open>C\<close> on the
  empty memory; the element with the identifier "root" is taken to exist in the document.
\<close>

record root =
  mem :: memory
  tree :: element

definition commit :: "(element \<times> memory) option \<Rightarrow> root option" where
  "commit r = (case r of None \<Rightarrow> None | Some (t, m) \<Rightarrow> Some \<lparr>mem = m, tree = t\<rparr>)"

definition render :: "(memory \<Rightarrow> (element \<times> memory) option) \<Rightarrow> root option" where
  "render C = commit (C empty_memory)"

fun onClicks :: "property list \<Rightarrow> handler list" where
  "onClicks [] = []"
| "onClicks (onClick h # ps) = h # onClicks ps"
| "onClicks (p # ps) = onClicks ps"

text \<open>The handlers of the buttons of a tree that carry a given label.\<close>

fun button_handlers :: "string \<Rightarrow> element \<Rightarrow> handler list" where
  "button_handlers l (Text s) = []"
| "button_handlers l (Element tag props children) =
     (if tag = ''button'' \<and> children = [Text l] then onClicks props else [])
     @ concat (map (button_handlers l) children)"

text \<open>
  A click on the button labelled \<open>l\<close> calls the handler that the last render attached
  to it; the library then renders the component again from the new memory, before the
  next click. A click on a label that no button, or more than one, carries is \<open>None\<close>.
\<close>

definition click ::
  "(memory \<Rightarrow> (element \<times> memory) option) \<Rightarrow> string \<Rightarrow> root \<Rightarrow> root option" where
  "click C l r =
     (case button_handlers l (tree r) of
        [h] \<Rightarrow> (case call h (mem r) of None \<Rightarrow> None | Some m \<Rightarrow> commit (C m))
      | _ \<Rightarrow> None)"

fun clicks ::
  "(memory \<Rightarrow> (element \<times> memory) option) \<Rightarrow> string list \<Rightarrow> root option \<Rightarrow> root option" where
  "clicks C [] r = r"
| "clicks C (l # ls) r =
     (case r of None \<Rightarrow> None | Some r0 \<Rightarrow> clicks C ls (click C l r0))"

text \<open>Rendering again without a click: the library calls the component on the memory as it is.\<close>

definition rerender ::
  "(memory \<Rightarrow> (element \<times> memory) option) \<Rightarrow> root \<Rightarrow> root option" where
  "rerender C r = commit (C (mem r))"

section \<open>What a page shows\<close>

fun text_content :: "element \<Rightarrow> string" where
  "text_content (Text s) = s"
| "text_content (Element tag props children) = concat (map text_content children)"

text \<open>The elements of a tree with a given tag, in document order.\<close>

fun elements_by_tag :: "string \<Rightarrow> element \<Rightarrow> element list" where
  "elements_by_tag t (Text s) = []"
| "elements_by_tag t (Element tag props children) =
     (if tag = t then [Element tag props children] else [])
     @ concat (map (elements_by_tag t) children)"

text \<open>
  On the page of \<open>App\<close> the paragraph inside \<open>main\<close> is the one of \<open>Counter\<close>, and
  the \<open>li\<close> elements are the entries of \<open>Lista\<close>.
\<close>

definition valore :: "root \<Rightarrow> string list" where
  "valore r =
     map text_content (concat (map (elements_by_tag ''p'') (elements_by_tag ''main'' (tree r))))"

definition entries :: "root \<Rightarrow> string list" where
  "entries r = map text_content (elements_by_tag ''li'' (tree r))"

text \<open>The state of each component: the content of its cell.\<close>

definition count_of :: "root \<Rightarrow> nat option" where
  "count_of r = Counter_cell (mem r)"

definition items_of :: "root \<Rightarrow> string list option" where
  "items_of r = (case Lista_cell (mem r) of None \<Rightarrow> None | Some a \<Rightarrow> heap (mem r) a)"

text \<open>All handlers of a tree, and its elements that a user can operate.\<close>

fun handlers :: "element \<Rightarrow> handler list" where
  "handlers (Text s) = []"
| "handlers (Element tag props children) = onClicks props @ concat (map handlers children)"

definition headings :: "element \<Rightarrow> element list" where
  "headings t =
     concat (map (\<lambda>h. elements_by_tag h t) [''h1'', ''h2'', ''h3'', ''h4'', ''h5'', ''h6''])"

definition interactive :: "element \<Rightarrow> element list" where
  "interactive t =
     concat (map (\<lambda>h. elements_by_tag h t)
       [''button'', ''a'', ''input'', ''select'', ''textarea''])"

text \<open>Reading a decimal string back.\<close>

definition digit_value :: "char \<Rightarrow> nat" where
  "digit_value c = of_char c - 48"

definition string_to_number :: "string \<Rightarrow> nat" where
  "string_to_number s = foldl (\<lambda>n c. 10 * n + digit_value c) 0 s"

section \<open>The pages that clicks reach\<close>

text \<open>The trees that \<open>Counter\<close>, \<open>Lista\<close> and \<open>App\<close> return, by the values they show.\<close>

definition Counter_tree :: "nat \<Rightarrow> element" where
  "Counter_tree count =
     Element ''div'' []
       [Element ''h2'' [] [Text ''Contatore''],
        Element ''p'' [] [Text (''Valore: '' @ number_to_string count)],
        Element ''button'' [onClick (Counter_onClick count)] [Text ''Aumenta'']]"

definition Lista_tree :: "addr \<Rightarrow> string list \<Rightarrow> element" where
  "Lista_tree items xs =
     Element ''div'' []
       [Element ''h2'' [] [Text ''Lista dinamica''],
        Element ''ul'' []
          (map (\<lambda>(index, item). Element ''li'' [key index] [Text item]) (enumerate 0 xs)),
        Element ''button'' [onClick (aggiungiElemento items)] [Text ''Aggiungi'']]"

definition App_tree :: "nat \<Rightarrow> addr \<Rightarrow> string list \<Rightarrow> element" where
  "App_tree count items xs =
     Element ''div'' []
       [Header,
        Element ''main'' [] [Counter_tree count, Element ''hr'' [] [], Lista_tree items xs],
        Footer]"

text \<open>
  A memory in which both components are mounted: the cells are set, the cell of \<open>Lista\<close>
  refers to an array, and no address from \<open>next_addr\<close> on is in use.
\<close>

definition mounted :: "memory \<Rightarrow> nat \<Rightarrow> addr \<Rightarrow> string list \<Rightarrow> bool" where
  "mounted m count items xs \<longleftrightarrow>
     Counter_cell m = Some count \<and> Lista_cell m = Some items \<and> heap m items = Some xs \<and>
     (\<forall>a. next_addr m \<le> a \<longrightarrow> heap m a = None)"

definition page :: "root \<Rightarrow> nat \<Rightarrow> addr \<Rightarrow> string list \<Rightarrow> bool" where
  "page r count items xs \<longleftrightarrow>
     mounted (mem r) count items xs \<and> tree r = App_tree count items xs"

text \<open>Every array of \<open>m\<close> is still there in \<open>m'\<close>, with the same content.\<close>

definition kept :: "memory \<Rightarrow> memory \<Rightarrow> bool" where
  "kept m m' \<longleftrightarrow> (\<forall>b. heap m b \<noteq> None \<longrightarrow> heap m' b = heap m b)"

definition Elemento :: "nat \<Rightarrow> string" where
  "Elemento k = ''Elemento '' @ number_to_string k"

definition items_after :: "nat \<Rightarrow> string list" where
  "items_after n = ''ALALALALA'' # map (\<lambda>i. Elemento (i + 2)) [0..<n]"

declare number_to_string.simps [simp del]

section \<open>Numbers as strings\<close>

lemmas to_string_eval = number_to_string.simps digit_def char_of_def bit_0

lemma number_to_string_0: "number_to_string 0 = ''0''"
  by (simp add: to_string_eval)

lemma digit_value_digit: "d < 10 \<Longrightarrow> digit_value (digit d) = d"
  by (simp add: digit_value_def digit_def)

lemma string_to_number_snoc:
  "string_to_number (s @ [c]) = 10 * string_to_number s + digit_value c"
  by (simp add: string_to_number_def)

lemma string_to_number_number_to_string: "string_to_number (number_to_string n) = n"
proof (induction n rule: number_to_string.induct)
  case (1 n)
  show ?case
  proof (cases "n < 10")
    case True
    then show ?thesis
      by (simp add: number_to_string.simps [of n] string_to_number_def digit_value_digit)
  next
    case False
    with 1 have "string_to_number (number_to_string (n div 10)) = n div 10" by simp
    with False show ?thesis
      by (simp add: number_to_string.simps [of n] string_to_number_snoc digit_value_digit)
  qed
qed

lemma number_to_string_inj: "number_to_string m = number_to_string n \<Longrightarrow> m = n"
  by (metis string_to_number_number_to_string)

section \<open>Rendering and clicking, step by step\<close>

lemma Counter_mounted:
  "Counter_cell m = Some c \<Longrightarrow> Counter m = (Counter_tree c, m)"
  by (simp add: Counter_def useState_def Counter_tree_def)

lemma Counter_first:
  "Counter_cell m = None \<Longrightarrow> Counter m = (Counter_tree 0, m\<lparr>Counter_cell := Some 0\<rparr>)"
  by (simp add: Counter_def useState_def Counter_tree_def)

lemma kept_refl: "kept m m"
  by (simp add: kept_def)

lemma kept_trans: "kept m m1 \<Longrightarrow> kept m1 m2 \<Longrightarrow> kept m m2"
  by (auto simp: kept_def)

lemma Lista_mounted:
  assumes "mounted m c a xs"
  shows "\<exists>m'. Lista m = Some (Lista_tree a xs, m') \<and> mounted m' c a xs \<and> kept m m'"
  using assms
  by (auto simp: Lista_def useState_def new_array_def Lista_tree_def mounted_def kept_def)

lemma Lista_first:
  assumes "Lista_cell m = None" "Counter_cell m = Some c" "\<forall>a. next_addr m \<le> a \<longrightarrow> heap m a = None"
  shows "\<exists>m'. Lista m = Some (Lista_tree (next_addr m) [''ALALALALA''], m')
     \<and> mounted m' c (next_addr m) [''ALALALALA''] \<and> kept m m'"
  using assms
  by (auto simp: Lista_def useState_def new_array_def Lista_tree_def mounted_def kept_def)

lemma App_mounted:
  assumes "mounted m c a xs"
  shows "\<exists>m'. App m = Some (App_tree c a xs, m') \<and> mounted m' c a xs \<and> kept m m'"
proof -
  from assms have "Counter m = (Counter_tree c, m)"
    by (simp add: mounted_def Counter_mounted)
  moreover from Lista_mounted [OF assms] obtain m' where
    "Lista m = Some (Lista_tree a xs, m')" "mounted m' c a xs" "kept m m'" by blast
  ultimately show ?thesis
    by (simp add: App_def App_tree_def)
qed

lemma render_App:
  "\<exists>r. render App = Some r \<and> page r 0 0 [''ALALALALA'']"
proof -
  let ?m = "empty_memory\<lparr>Counter_cell := Some 0\<rparr>"
  have c: "Counter empty_memory = (Counter_tree 0, ?m)"
    by (simp add: Counter_first empty_memory_def)
  have "\<exists>m'. Lista ?m = Some (Lista_tree (next_addr ?m) [''ALALALALA''], m')
     \<and> mounted m' 0 (next_addr ?m) [''ALALALALA''] \<and> kept ?m m'"
    by (rule Lista_first) (simp_all add: empty_memory_def)
  then obtain m' where "Lista ?m = Some (Lista_tree 0 [''ALALALALA''], m')"
    "mounted m' 0 0 [''ALALALALA'']"
    by (auto simp: empty_memory_def)
  with c show ?thesis
    by (simp add: render_def commit_def App_def App_tree_def page_def)
qed

lemma button_handlers_App_tree:
  "button_handlers l (App_tree c a xs) =
     (if l = ''Aumenta'' then [Counter_onClick c] else []) @
     (if l = ''Aggiungi'' then [aggiungiElemento a] else [])"
  by (auto simp: App_tree_def Header_def Footer_def Counter_tree_def Lista_tree_def)

lemma click_Aumenta:
  assumes "page r c a xs"
  shows "\<exists>r'. click App ''Aumenta'' r = Some r' \<and> page r' (plus_one c) a xs \<and> kept (mem r) (mem r')"
proof -
  let ?m = "(mem r)\<lparr>Counter_cell := Some (plus_one c)\<rparr>"
  from assms have "mounted ?m (plus_one c) a xs"
    by (simp add: page_def mounted_def)
  from App_mounted [OF this] obtain m' where
    "App ?m = Some (App_tree (plus_one c) a xs, m')" "mounted m' (plus_one c) a xs" "kept ?m m'"
    by blast
  moreover have "kept (mem r) ?m" by (simp add: kept_def)
  ultimately show ?thesis using assms
    by (auto simp: click_def page_def button_handlers_App_tree commit_def kept_def)
qed

lemma click_Aggiungi:
  assumes "page r c a xs"
  shows "\<exists>r' a'. click App ''Aggiungi'' r = Some r'
     \<and> page r' c a' (spread_with xs (Elemento (plus_one (length xs))))
     \<and> a' \<noteq> a \<and> heap (mem r) a' = None \<and> kept (mem r) (mem r')"
proof -
  let ?ys = "spread_with xs (Elemento (plus_one (length xs)))"
  let ?a = "next_addr (mem r)"
  let ?m = "(mem r)\<lparr>heap := (heap (mem r))(?a := Some ?ys), next_addr := Suc ?a, Lista_cell := Some ?a\<rparr>"
  from assms have m: "mounted (mem r) c a xs" and t: "tree r = App_tree c a xs"
    by (simp_all add: page_def)
  from m have fresh: "heap (mem r) ?a = None" and old: "heap (mem r) a = Some xs"
    by (simp_all add: mounted_def)
  then have ne: "?a \<noteq> a" by auto
  from old have call: "call (aggiungiElemento a) (mem r) = Some ?m"
    by (simp add: new_array_def Elemento_def)
  from m have "mounted ?m c ?a ?ys"
    by (simp add: mounted_def)
  from App_mounted [OF this] obtain m' where
    app: "App ?m = Some (App_tree c ?a ?ys, m')" "mounted m' c ?a ?ys" "kept ?m m'"
    by blast
  from fresh have "kept (mem r) ?m" by (auto simp: kept_def)
  then have "kept (mem r) m'" using app(3) by (rule kept_trans)
  moreover from t call app(1) have
    "click App ''Aggiungi'' r = Some \<lparr>mem = m', tree = App_tree c ?a ?ys\<rparr>"
    by (simp add: click_def button_handlers_App_tree commit_def)
  ultimately show ?thesis using app(2) ne fresh
    by (intro exI [of _ "\<lparr>mem = m', tree = App_tree c ?a ?ys\<rparr>"] exI [of _ ?a])
       (simp add: page_def)
qed

lemma spread_with_Elemento:
  assumes "length xs \<le> max_length"
  shows "spread_with xs (Elemento (plus_one (length xs))) =
     (if length xs < max_length
      then xs @ [''Elemento '' @ number_to_string (length xs + 1)] else xs)"
proof -
  from assms have "length xs < 2 ^ 53" by (simp add: max_length_def)
  then have "plus_one (length xs) = length xs + 1" by (simp add: plus_one_def)
  then show ?thesis by (simp add: spread_with_def Elemento_def)
qed

section \<open>Every sequence of clicks\<close>

lemma plus_one_min: "plus_one (min k (2 ^ 53)) = min (Suc k) (2 ^ 53)"
  by (simp add: plus_one_def min_def)

lemma length_items_after: "length (items_after n) = n + 1"
  by (simp add: items_after_def)

lemma items_after_Suc:
  "items_after n @ [Elemento (length (items_after n) + 1)] = items_after (Suc n)"
  by (simp add: items_after_def)

lemma spread_with_items_after:
  "spread_with (items_after (min j (max_length - 1)))
     (Elemento (plus_one (length (items_after (min j (max_length - 1)))))) =
   items_after (min (Suc j) (max_length - 1))"
proof (cases "j < max_length - 1")
  case True
  then have m: "min j (max_length - 1) = j" "min (Suc j) (max_length - 1) = Suc j"
    by simp_all
  from True have "length (items_after j) \<le> max_length" "length (items_after j) < max_length"
    by (simp_all add: length_items_after)
  then have "spread_with (items_after j) (Elemento (plus_one (length (items_after j)))) =
      items_after j @ [Elemento (length (items_after j) + 1)]"
    using spread_with_Elemento [of "items_after j"] by (simp add: Elemento_def)
  then show ?thesis
    by (simp only: m items_after_Suc)
next
  case False
  then have m: "min j (max_length - 1) = max_length - 1"
    "min (Suc j) (max_length - 1) = max_length - 1"
    by simp_all
  have "length (items_after (max_length - 1)) = max_length"
    by (simp add: length_items_after max_length_def)
  then have "spread_with (items_after (max_length - 1))
      (Elemento (plus_one (length (items_after (max_length - 1))))) =
      items_after (max_length - 1)"
    by (simp add: spread_with_def)
  then show ?thesis
    by (simp only: m)
qed

lemma clicks_page:
  assumes "page r (min k (2 ^ 53)) a (items_after (min j (max_length - 1)))"
    and "set ls \<subseteq> {''Aumenta'', ''Aggiungi''}"
  shows "\<exists>r' a'. clicks App ls (Some r) = Some r'
     \<and> page r' (min (k + count_list ls ''Aumenta'') (2 ^ 53)) a'
          (items_after (min (j + count_list ls ''Aggiungi'') (max_length - 1)))
     \<and> kept (mem r) (mem r')"
  using assms
proof (induction ls arbitrary: r k a j)
  case Nil
  then show ?case by (auto simp: kept_refl)
next
  case (Cons l ls)
  from Cons.prems(2) consider "l = ''Aumenta''" | "l = ''Aggiungi''" by auto
  then show ?case
  proof cases
    case 1
    from click_Aumenta [OF Cons.prems(1)] obtain r1 where
      r1: "click App ''Aumenta'' r = Some r1"
        "page r1 (min (Suc k) (2 ^ 53)) a (items_after (min j (max_length - 1)))"
        "kept (mem r) (mem r1)"
      unfolding plus_one_min by blast
    from Cons.IH [OF r1(2)] Cons.prems(2) obtain r' a' where
      "clicks App ls (Some r1) = Some r'"
      "page r' (min (Suc k + count_list ls ''Aumenta'') (2 ^ 53)) a'
         (items_after (min (j + count_list ls ''Aggiungi'') (max_length - 1)))"
      "kept (mem r1) (mem r')"
      by auto
    with r1 1 show ?thesis
      by (auto intro: kept_trans)
  next
    case 2
    from click_Aggiungi [OF Cons.prems(1)] obtain r1 a1 where
      r1: "click App ''Aggiungi'' r = Some r1"
        "page r1 (min k (2 ^ 53)) a1 (items_after (min (Suc j) (max_length - 1)))"
        "kept (mem r) (mem r1)"
      unfolding spread_with_items_after by blast
    from Cons.IH [OF r1(2)] Cons.prems(2) obtain r' a' where
      "clicks App ls (Some r1) = Some r'"
      "page r' (min (k + count_list ls ''Aumenta'') (2 ^ 53)) a'
         (items_after (min (Suc j + count_list ls ''Aggiungi'') (max_length - 1)))"
      "kept (mem r1) (mem r')"
      by auto
    with r1 2 show ?thesis
      by (auto intro: kept_trans)
  qed
qed

lemma reached_page:
  assumes "set ls \<subseteq> {''Aumenta'', ''Aggiungi''}"
  shows "\<exists>r a. clicks App ls (render App) = Some r
     \<and> page r (min (count_list ls ''Aumenta'') (2 ^ 53)) a
          (items_after (min (count_list ls ''Aggiungi'') (max_length - 1)))"
proof -
  from render_App obtain r0 where r0: "render App = Some r0" "page r0 0 0 [''ALALALALA'']"
    by blast
  then have "page r0 (min 0 (2 ^ 53)) 0 (items_after (min 0 (max_length - 1)))"
    by (simp add: items_after_def)
  from clicks_page [OF this assms] r0(1) show ?thesis
    by auto
qed

lemma li_of_enumerate:
  "concat (map (elements_by_tag ''li'')
     (map (\<lambda>(index, item). Element ''li'' [key index] [Text item]) (enumerate n xs)))
   = map (\<lambda>(index, item). Element ''li'' [key index] [Text item]) (enumerate n xs)"
  by (induction xs arbitrary: n) simp_all

lemma text_of_enumerate:
  "map text_content
     (map (\<lambda>(index, item). Element ''li'' [key index] [Text item]) (enumerate n xs)) = xs"
  by (induction xs arbitrary: n) simp_all

lemma no_other_tag_in_li:
  "t \<noteq> ''li'' \<Longrightarrow> concat (map (elements_by_tag t)
     (map (\<lambda>(index, item). Element ''li'' [key index] [Text item]) ys)) = []"
  by (induction ys) auto

lemma entries_page: "page r c a xs \<Longrightarrow> entries r = xs"
  by (simp add: page_def entries_def App_tree_def Header_def Footer_def Counter_tree_def
      Lista_tree_def li_of_enumerate text_of_enumerate del: map_map)

lemma valore_page: "page r c a xs \<Longrightarrow> valore r = [''Valore: '' @ number_to_string c]"
  by (simp add: page_def valore_def App_tree_def Header_def Footer_def Counter_tree_def
      Lista_tree_def no_other_tag_in_li del: map_map)

lemma count_of_page: "page r c a xs \<Longrightarrow> count_of r = Some c"
  by (simp add: page_def mounted_def count_of_def)

lemma items_of_page: "page r c a xs \<Longrightarrow> items_of r = Some xs"
  by (simp add: page_def mounted_def items_of_def)

lemma count_list_replicate_same: "count_list (replicate n x) x = n"
  by (induction n) simp_all

lemma count_list_replicate_other: "x \<noteq> y \<Longrightarrow> count_list (replicate n x) y = 0"
  by (induction n) simp_all

lemma rerender_page:
  assumes "page r c a xs"
  shows "\<exists>r'. rerender App r = Some r' \<and> page r' c a xs \<and> kept (mem r) (mem r')"
proof -
  from assms have "mounted (mem r) c a xs" by (simp add: page_def)
  from App_mounted [OF this] obtain m' where
    "App (mem r) = Some (App_tree c a xs, m')" "mounted m' c a xs" "kept (mem r) m'"
    by blast
  then show ?thesis
    by (simp add: rerender_def commit_def page_def)
qed

lemma no_handler_in_li:
  "concat (map handlers
     (map (\<lambda>(index, item). Element ''li'' [key index] [Text item]) ys)) = []"
  by (induction ys) auto

lemma handlers_page:
  "page r c a xs \<Longrightarrow> handlers (tree r) = [Counter_onClick c, aggiungiElemento a]"
  by (simp add: page_def App_tree_def Header_def Footer_def Counter_tree_def Lista_tree_def
      no_handler_in_li del: map_map)

lemma Aumenta_clicks:
  "\<exists>r a. clicks App (replicate n ''Aumenta'') (render App) = Some r
     \<and> page r (min n (2 ^ 53)) a [''ALALALALA'']"
proof -
  have "set (replicate n ''Aumenta'') \<subseteq> {''Aumenta'', ''Aggiungi''}" by auto
  from reached_page [OF this] show ?thesis
    by (simp add: count_list_replicate_same count_list_replicate_other items_after_def)
qed

lemma Aumenta_clicks_valore:
  "map_option valore (clicks App (replicate n ''Aumenta'') (render App)) =
     Some [''Valore: '' @ number_to_string (min n (2 ^ 53))]"
proof -
  from Aumenta_clicks [of n] obtain r a where
    "clicks App (replicate n ''Aumenta'') (render App) = Some r"
    "page r (min n (2 ^ 53)) a [''ALALALALA'']" by blast
  then show ?thesis by (simp add: valore_page)
qed

lemma Aumenta_clicks_count:
  "map_option count_of (clicks App (replicate n ''Aumenta'') (render App)) =
     Some (Some (min n (2 ^ 53)))"
proof -
  from Aumenta_clicks [of n] obtain r a where
    "clicks App (replicate n ''Aumenta'') (render App) = Some r"
    "page r (min n (2 ^ 53)) a [''ALALALALA'']" by blast
  then show ?thesis by (simp add: count_of_page)
qed

lemma replicate_3: "replicate 3 x = [x, x, x]"
  by (simp add: numeral_3_eq_3)

lemma nth_items_after:
  "items_after n ! 0 = ''ALALALALA''"
  "1 \<le> k \<Longrightarrow> k \<le> n \<Longrightarrow> items_after n ! k = ''Elemento '' @ number_to_string (k + 1)"
  by (auto simp: items_after_def Elemento_def nth_Cons split: nat.splits)

lemma items_after_upt:
  "items_after n = ''ALALALALA'' # map (\<lambda>k. ''Elemento '' @ number_to_string k) [2..<n + 2]"
proof -
  have "map (\<lambda>i. Elemento (i + 2)) [0..<n] = map Elemento (map (\<lambda>i. i + 2) [0..<n])"
    by simp
  also have "map (\<lambda>i. i + 2) [0..<n] = [2..<n + 2]"
    by (rule map_add_upt)
  finally show ?thesis
    by (simp add: items_after_def Elemento_def [abs_def])
qed

lemma Elemento_inj: "Elemento j = Elemento k \<Longrightarrow> j = k"
  by (simp add: Elemento_def number_to_string_inj)

lemma distinct_items_after: "distinct (items_after n)"
proof -
  have "inj_on (\<lambda>i. Elemento (i + 2)) (set [0..<n])"
    by (rule inj_onI) (auto dest: Elemento_inj)
  then have "distinct (map (\<lambda>i. Elemento (i + 2)) [0..<n])"
    by (simp add: distinct_map)
  moreover have "''ALALALALA'' \<notin> set (map (\<lambda>i. Elemento (i + 2)) [0..<n])"
    by (auto simp: Elemento_def)
  ultimately show ?thesis
    by (simp add: items_after_def)
qed

lemma length_items_after_min:
  "length (items_after (min n (max_length - 1))) = min (n + 1) max_length"
  by (simp add: length_items_after max_length_def min_def)

lemma entries_reached:
  assumes "set ls \<subseteq> {''Aumenta'', ''Aggiungi''}"
  shows "map_option entries (clicks App ls (render App)) =
     Some (items_after (min (count_list ls ''Aggiungi'') (max_length - 1)))"
proof -
  from reached_page [OF assms] obtain r a where
    "clicks App ls (render App) = Some r"
    "page r (min (count_list ls ''Aumenta'') (2 ^ 53)) a
       (items_after (min (count_list ls ''Aggiungi'') (max_length - 1)))"
    by blast
  then show ?thesis by (simp add: entries_page)
qed

lemma Aggiungi_clicks_entries:
  "map_option entries (clicks App (replicate n ''Aggiungi'') (render App)) =
     Some (items_after (min n (max_length - 1)))"
proof -
  have "set (replicate n ''Aggiungi'') \<subseteq> {''Aumenta'', ''Aggiungi''}" by auto
  from entries_reached [OF this] show ?thesis
    by (simp add: count_list_replicate_same)
qed

lemma Aggiungi_clicks_more:
  "map_option entries (clicks App (replicate n ''Aggiungi'' @ [''Aggiungi'']) (render App)) =
     Some (items_after (min (Suc n) (max_length - 1)))"
proof -
  have "set (replicate n ''Aggiungi'' @ [''Aggiungi'']) \<subseteq> {''Aumenta'', ''Aggiungi''}"
    by auto
  from entries_reached [OF this] show ?thesis
    by (simp add: count_list_replicate_same)
qed

lemma Aggiungi_clicks_length:
  "map_option (length \<circ> entries) (clicks App (replicate n ''Aggiungi'') (render App)) =
     Some (min (n + 1) max_length)"
proof -
  have "map_option (length \<circ> entries) (clicks App (replicate n ''Aggiungi'') (render App)) =
      map_option length (map_option entries (clicks App (replicate n ''Aggiungi'') (render App)))"
    by (simp add: option.map_comp)
  then show ?thesis
    by (simp only: Aggiungi_clicks_entries option.map length_items_after_min)
qed

lemma plus_one_le: "c \<le> 2 ^ 53 \<Longrightarrow> plus_one c = (if c < 2 ^ 53 then c + 1 else c)"
  by (simp add: plus_one_def)

section \<open>The Home page\<close>

text \<open>
  C8: mounting the Home page renders the tree of \<open>Home\<close>, which has exactly one heading
  element, an \<open>h1\<close> with the text "Contapersone", and nothing to interact with: no
  button or other control, and no event handler on any element.
\<close>

theorem Home_page_heading:
  "map_option tree (render Home_App) = Some Home
   \<and> headings Home = [Element ''h1'' [] [Text ''Contapersone'']]
   \<and> map text_content (headings Home) = [''Contapersone'']
   \<and> interactive Home = []
   \<and> handlers Home = []"
  by (simp add: render_def commit_def Home_App_def Home_def headings_def interactive_def)

section \<open>The counter\<close>

text \<open>
  C4: every render of \<open>Counter\<close> shows one paragraph, whose text is "Valore: " followed
  by the string of the count, where the count is the content of the cell, or 0 on the
  initial render, when the cell is not set yet; the initial render shows "Valore: 0".
\<close>

theorem Counter_renders_Valore:
  "map text_content (elements_by_tag ''p'' (fst (Counter m))) =
     [''Valore: '' @ number_to_string (case Counter_cell m of None \<Rightarrow> 0 | Some count \<Rightarrow> count)]
   \<and> map text_content (elements_by_tag ''p'' (fst (Counter empty_memory))) = [''Valore: 0'']"
  by (simp add: Counter_def useState_def empty_memory_def number_to_string_0 split: option.split)

text \<open>
  C2, as amended: from a freshly mounted page, after \<open>n\<close> clicks on "Aumenta" the
  counter shows "Valore: " followed by the smaller of \<open>n\<close> and \<open>2 ^ 53\<close>: exactly
  \<open>n\<close> for every \<open>n\<close> up to \<open>2 ^ 53 = 9007199254740992\<close>, and \<open>2 ^ 53\<close> from then on.
  After exactly 3 clicks the text is "Valore: 3".
\<close>

theorem increments_displayed:
  "map_option valore (clicks App (replicate n ''Aumenta'') (render App)) =
     Some [''Valore: '' @ number_to_string (min n (2 ^ 53))]
   \<and> map_option valore (clicks App [''Aumenta'', ''Aumenta'', ''Aumenta''] (render App)) =
     Some [''Valore: 3'']"
proof
  show "map_option valore (clicks App (replicate n ''Aumenta'') (render App)) =
     Some [''Valore: '' @ number_to_string (min n (2 ^ 53))]"
    by (rule Aumenta_clicks_valore)
  have "map_option valore (clicks App (replicate 3 ''Aumenta'') (render App)) =
     Some [''Valore: '' @ number_to_string (min 3 (2 ^ 53))]"
    by (rule Aumenta_clicks_valore)
  then show "map_option valore (clicks App [''Aumenta'', ''Aumenta'', ''Aumenta''] (render App)) =
     Some [''Valore: 3'']"
    by (simp add: replicate_3 to_string_eval)
qed

text \<open>
  C2 as stated fails at \<open>n = 2 ^ 53 + 1\<close>: the Number \<open>2 ^ 53 + 1\<close> is not a double,
  the last increment leaves the count at \<open>2 ^ 53\<close>, and the counter shows
  "Valore: 9007199254740992" where the claim expects "Valore: 9007199254740993".
\<close>

theorem increments_displayed_counterexample:
  "map_option valore (clicks App (replicate (2 ^ 53 + 1) ''Aumenta'') (render App)) =
     Some [''Valore: 9007199254740992'']
   \<and> ''Valore: 9007199254740992'' \<noteq> ''Valore: '' @ number_to_string (2 ^ 53 + 1)"
proof
  have "min (2 ^ 53 + 1) (2 ^ 53) = (9007199254740992::nat)" by simp
  moreover have "number_to_string 9007199254740992 = ''9007199254740992''"
    by (simp add: to_string_eval)
  moreover have "map_option valore (clicks App (replicate (2 ^ 53 + 1) ''Aumenta'') (render App)) =
     Some [''Valore: '' @ number_to_string (min (2 ^ 53 + 1) (2 ^ 53))]"
    by (rule Aumenta_clicks_valore)
  ultimately show "map_option valore (clicks App (replicate (2 ^ 53 + 1) ''Aumenta'') (render App)) =
     Some [''Valore: 9007199254740992'']"
    by (simp only: append_Cons append_Nil)
  show "''Valore: 9007199254740992'' \<noteq> ''Valore: '' @ number_to_string (2 ^ 53 + 1)"
    by (simp add: to_string_eval)
qed

section \<open>The list\<close>

text \<open>
  C1, as amended: from a freshly mounted page, after \<open>n\<close> clicks on "Aggiungi" the
  rendered list has the smaller of \<open>n + 1\<close> and \<open>2 ^ 32 - 1\<close> entries: exactly \<open>n + 1\<close>
  for every \<open>n\<close> up to \<open>2 ^ 32 - 2\<close>. The first entry is the seed "ALALALALA"; and for
  \<open>1 \<le> k \<le> n\<close> with \<open>k \<le> 2 ^ 32 - 2\<close> the entry that the \<open>k\<close>-th click appended, at
  position \<open>k + 1\<close> counted from 1 (index \<open>k\<close> counted from 0), reads "Elemento "
  followed by \<open>k + 1\<close>.
\<close>

theorem appends_rendered:
  "\<exists>r. clicks App (replicate n ''Aggiungi'') (render App) = Some r
     \<and> length (entries r) = min (n + 1) max_length
     \<and> entries r ! 0 = ''ALALALALA''
     \<and> (\<forall>k. 1 \<le> k \<and> k \<le> n \<and> k < max_length \<longrightarrow>
           entries r ! k = ''Elemento '' @ number_to_string (k + 1))"
proof -
  let ?m = "min n (max_length - 1)"
  have "set (replicate n ''Aggiungi'') \<subseteq> {''Aumenta'', ''Aggiungi''}" by auto
  from reached_page [OF this] obtain r c a where
    r: "clicks App (replicate n ''Aggiungi'') (render App) = Some r" "page r c a (items_after ?m)"
    by (auto simp: count_list_replicate_same)
  from r(2) have e: "entries r = items_after ?m" by (rule entries_page)
  have len: "length (entries r) = min (n + 1) max_length"
    by (simp only: e length_items_after_min)
  have first: "entries r ! 0 = ''ALALALALA''"
    by (simp only: e nth_items_after(1))
  have nth: "\<forall>k. 1 \<le> k \<and> k \<le> n \<and> k < max_length \<longrightarrow>
           entries r ! k = ''Elemento '' @ number_to_string (k + 1)"
  proof (intro allI impI)
    fix k assume k: "1 \<le> k \<and> k \<le> n \<and> k < max_length"
    then have "1 \<le> k" "k \<le> ?m" by arith+
    then have "items_after ?m ! k = ''Elemento '' @ number_to_string (k + 1)"
      by (rule nth_items_after(2))
    then show "entries r ! k = ''Elemento '' @ number_to_string (k + 1)"
      by (simp only: e)
  qed
  from r(1) len first nth show ?thesis
    by blast
qed

text \<open>Two clicks: three entries, "ALALALALA", "Elemento 2", "Elemento 3".\<close>

theorem appends_rendered_witness:
  "\<exists>r. clicks App (replicate 2 ''Aggiungi'') (render App) = Some r
     \<and> length (entries r) = 3
     \<and> entries r ! 0 = ''ALALALALA''
     \<and> entries r ! 1 = ''Elemento 2''
     \<and> entries r ! 2 = ''Elemento 3''"
proof -
  from appends_rendered [of 2] obtain r where
    r: "clicks App (replicate 2 ''Aggiungi'') (render App) = Some r"
      "length (entries r) = min (2 + 1) max_length" "entries r ! 0 = ''ALALALALA''"
      "\<forall>k. 1 \<le> k \<and> k \<le> 2 \<and> k < max_length \<longrightarrow>
         entries r ! k = ''Elemento '' @ number_to_string (k + 1)"
    by blast
  from r(2) have len: "length (entries r) = 3"
    by (simp add: max_length_def)
  from r(4) have "1 \<le> (1::nat) \<and> (1::nat) \<le> 2 \<and> 1 < max_length \<longrightarrow>
      entries r ! 1 = ''Elemento '' @ number_to_string (1 + 1)"
    by (rule spec)
  then have e1: "entries r ! 1 = ''Elemento 2''"
    by (simp add: max_length_def to_string_eval)
  from r(4) have "1 \<le> (2::nat) \<and> (2::nat) \<le> 2 \<and> 2 < max_length \<longrightarrow>
      entries r ! 2 = ''Elemento '' @ number_to_string (2 + 1)"
    by (rule spec)
  then have e2: "entries r ! 2 = ''Elemento 3''"
    by (simp add: max_length_def to_string_eval)
  from r(1,3) len e1 e2 show ?thesis
    by blast
qed

text \<open>
  C1 as stated fails at \<open>n = 2 ^ 32 - 1\<close>: an array has at most \<open>2 ^ 32 - 1 = 4294967295\<close>
  elements, the last click leaves the list as long as it was, and the page shows
  \<open>4294967295\<close> entries where the claim expects \<open>n + 1 = 4294967296\<close>.
\<close>

theorem appends_rendered_counterexample:
  "map_option (length \<circ> entries)
     (clicks App (replicate (2 ^ 32 - 1) ''Aggiungi'') (render App)) = Some 4294967295
   \<and> (4294967295::nat) \<noteq> (2 ^ 32 - 1) + 1"
proof
  have "min ((2 ^ 32 - 1) + 1) max_length = (4294967295::nat)"
    by (simp add: max_length_def)
  moreover have "map_option (length \<circ> entries)
      (clicks App (replicate (2 ^ 32 - 1) ''Aggiungi'') (render App)) =
      Some (min ((2 ^ 32 - 1) + 1) max_length)"
    by (rule Aggiungi_clicks_length)
  ultimately show "map_option (length \<circ> entries)
     (clicks App (replicate (2 ^ 32 - 1) ''Aggiungi'') (render App)) = Some 4294967295"
    by (simp only:)
  show "(4294967295::nat) \<noteq> (2 ^ 32 - 1) + 1"
    by simp
qed

text \<open>
  C3, as amended: in every state that clicks reach, one click on "Aggiungi" replaces the
  items, as long as they are fewer than \<open>2 ^ 32 - 1\<close>, by the old items followed by
  exactly one new string, "Elemento " followed by the old length plus 1, and the rendered
  list is the old one with that entry after all others; \<open>2 ^ 32 - 1\<close> items are replaced
  by the same items. One click on the fresh page gives "ALALALALA", "Elemento 2"; two give
  "ALALALALA", "Elemento 2", "Elemento 3".
\<close>

theorem append_once:
  assumes "set ls \<subseteq> {''Aumenta'', ''Aggiungi''}"
  shows "(\<exists>r xs. clicks App ls (render App) = Some r
       \<and> items_of r = Some xs \<and> entries r = xs
       \<and> length xs = min (count_list ls ''Aggiungi'' + 1) max_length
       \<and> map_option items_of (click App ''Aggiungi'' r) =
           Some (Some (if length xs < max_length
                       then xs @ [''Elemento '' @ number_to_string (length xs + 1)] else xs))
       \<and> map_option entries (click App ''Aggiungi'' r) =
           Some (if length xs < max_length
                 then xs @ [''Elemento '' @ number_to_string (length xs + 1)] else xs))
     \<and> map_option entries (clicks App [''Aggiungi''] (render App)) =
         Some [''ALALALALA'', ''Elemento 2'']
     \<and> map_option entries (clicks App [''Aggiungi'', ''Aggiungi''] (render App)) =
         Some [''ALALALALA'', ''Elemento 2'', ''Elemento 3'']"
proof (intro conjI)
  let ?xs = "items_after (min (count_list ls ''Aggiungi'') (max_length - 1))"
  let ?ys = "if length ?xs < max_length
             then ?xs @ [''Elemento '' @ number_to_string (length ?xs + 1)] else ?xs"
  from reached_page [OF assms] obtain r c a where
    r: "clicks App ls (render App) = Some r" "page r c a ?xs"
    by blast
  have len: "length ?xs = min (count_list ls ''Aggiungi'' + 1) max_length"
    by (rule length_items_after_min)
  then have "length ?xs \<le> max_length" by simp
  then have grow: "spread_with ?xs (Elemento (plus_one (length ?xs))) = ?ys"
    by (rule spread_with_Elemento)
  from click_Aggiungi [OF r(2)] obtain r' a' where
    r': "click App ''Aggiungi'' r = Some r'" "page r' c a' ?ys"
    unfolding grow by blast
  have "items_of r = Some ?xs" "entries r = ?xs"
    using r(2) by (simp_all only: items_of_page entries_page)
  moreover have "map_option items_of (click App ''Aggiungi'' r) = Some (Some ?ys)"
    "map_option entries (click App ''Aggiungi'' r) = Some ?ys"
    using r'(2) by (simp_all only: r'(1) option.map items_of_page entries_page)
  ultimately show "\<exists>r xs. clicks App ls (render App) = Some r
       \<and> items_of r = Some xs \<and> entries r = xs
       \<and> length xs = min (count_list ls ''Aggiungi'' + 1) max_length
       \<and> map_option items_of (click App ''Aggiungi'' r) =
           Some (Some (if length xs < max_length
                       then xs @ [''Elemento '' @ number_to_string (length xs + 1)] else xs))
       \<and> map_option entries (click App ''Aggiungi'' r) =
           Some (if length xs < max_length
                 then xs @ [''Elemento '' @ number_to_string (length xs + 1)] else xs)"
    using r(1) len by blast
next
  have "set [''Aggiungi''] \<subseteq> {''Aumenta'', ''Aggiungi''}" by simp
  from entries_reached [OF this]
  show "map_option entries (clicks App [''Aggiungi''] (render App)) =
         Some [''ALALALALA'', ''Elemento 2'']"
    by (simp add: max_length_def items_after_def Elemento_def to_string_eval)
next
  have "set [''Aggiungi'', ''Aggiungi''] \<subseteq> {''Aumenta'', ''Aggiungi''}" by simp
  from entries_reached [OF this]
  show "map_option entries (clicks App [''Aggiungi'', ''Aggiungi''] (render App)) =
         Some [''ALALALALA'', ''Elemento 2'', ''Elemento 3'']"
    by (simp add: max_length_def items_after_def Elemento_def to_string_eval)
qed

theorem append_once_witness:
  "set [''Aumenta'', ''Aggiungi''] \<subseteq> {''Aumenta'', ''Aggiungi''}
   \<and> (\<exists>r. clicks App [''Aumenta'', ''Aggiungi''] (render App) = Some r
        \<and> length (entries r) = 2
        \<and> map_option entries (click App ''Aggiungi'' r) =
            Some (entries r @ [''Elemento '' @ number_to_string (length (entries r) + 1)]))"
proof
  show h: "set [''Aumenta'', ''Aggiungi''] \<subseteq> {''Aumenta'', ''Aggiungi''}" by simp
  from append_once [OF h] obtain r xs where
    r: "clicks App [''Aumenta'', ''Aggiungi''] (render App) = Some r" "entries r = xs"
      "length xs = min (count_list [''Aumenta'', ''Aggiungi''] ''Aggiungi'' + 1) max_length"
      "map_option entries (click App ''Aggiungi'' r) =
         Some (if length xs < max_length
               then xs @ [''Elemento '' @ number_to_string (length xs + 1)] else xs)"
    by blast
  from r(3) have len: "length xs = 2" by (simp add: max_length_def)
  then have "length xs < max_length" by (simp add: max_length_def)
  with r(4) have "map_option entries (click App ''Aggiungi'' r) =
      Some (xs @ [''Elemento '' @ number_to_string (length xs + 1)])"
    by simp
  with r(1,2) len
  show "\<exists>r. clicks App [''Aumenta'', ''Aggiungi''] (render App) = Some r
        \<and> length (entries r) = 2
        \<and> map_option entries (click App ''Aggiungi'' r) =
            Some (entries r @ [''Elemento '' @ number_to_string (length (entries r) + 1)])"
    by blast
qed

text \<open>
  C3 as stated fails in the state that \<open>2 ^ 32 - 2\<close> clicks on "Aggiungi" reach: the list
  has \<open>2 ^ 32 - 1 = 4294967295\<close> entries there, and after one more click it has the same
  entries, not the old ones followed by a new one.
\<close>

theorem append_once_counterexample:
  "map_option (length \<circ> entries)
     (clicks App (replicate (2 ^ 32 - 2) ''Aggiungi'') (render App)) = Some 4294967295
   \<and> map_option entries
       (clicks App (replicate (2 ^ 32 - 2) ''Aggiungi'' @ [''Aggiungi'']) (render App)) =
     map_option entries (clicks App (replicate (2 ^ 32 - 2) ''Aggiungi'') (render App))"
proof
  have "min ((2 ^ 32 - 2) + 1) max_length = (4294967295::nat)"
    by (simp add: max_length_def)
  moreover have "map_option (length \<circ> entries)
      (clicks App (replicate (2 ^ 32 - 2) ''Aggiungi'') (render App)) =
      Some (min ((2 ^ 32 - 2) + 1) max_length)"
    by (rule Aggiungi_clicks_length)
  ultimately show "map_option (length \<circ> entries)
     (clicks App (replicate (2 ^ 32 - 2) ''Aggiungi'') (render App)) = Some 4294967295"
    by (simp only:)
  have "min (Suc (2 ^ 32 - 2)) (max_length - 1) = min (2 ^ 32 - 2) (max_length - 1)"
    by (simp add: max_length_def)
  moreover have "map_option entries
      (clicks App (replicate (2 ^ 32 - 2) ''Aggiungi'' @ [''Aggiungi'']) (render App)) =
      Some (items_after (min (Suc (2 ^ 32 - 2)) (max_length - 1)))"
    by (rule Aggiungi_clicks_more)
  moreover have "map_option entries
      (clicks App (replicate (2 ^ 32 - 2) ''Aggiungi'') (render App)) =
      Some (items_after (min (2 ^ 32 - 2) (max_length - 1)))"
    by (rule Aggiungi_clicks_entries)
  ultimately show "map_option entries
       (clicks App (replicate (2 ^ 32 - 2) ''Aggiungi'' @ [''Aggiungi'']) (render App)) =
     map_option entries (clicks App (replicate (2 ^ 32 - 2) ''Aggiungi'') (render App))"
    by (simp only:)
qed

text \<open>
  C10: in every state that clicks reach, the list has the smaller of the number of clicks
  on "Aggiungi" plus 1 and \<open>2 ^ 32 - 1\<close> entries; the entry at position \<open>k\<close> counted from 1 is
  "Elemento " followed by \<open>k\<close>, for every \<open>k\<close> from 2 to the length; the whole list is
  the seed followed by these entries, so its length determines it; and its entries are
  pairwise distinct.
\<close>

theorem entries_by_position:
  assumes "set ls \<subseteq> {''Aumenta'', ''Aggiungi''}"
  shows "\<exists>r. clicks App ls (render App) = Some r
     \<and> length (entries r) = min (count_list ls ''Aggiungi'' + 1) max_length
     \<and> items_of r = Some (entries r)
     \<and> (\<forall>k. 2 \<le> k \<and> k \<le> length (entries r) \<longrightarrow>
           entries r ! (k - 1) = ''Elemento '' @ number_to_string k)
     \<and> entries r =
         ''ALALALALA'' # map (\<lambda>k. ''Elemento '' @ number_to_string k) [2..<length (entries r) + 1]
     \<and> distinct (entries r)"
proof -
  let ?n = "min (count_list ls ''Aggiungi'') (max_length - 1)"
  from reached_page [OF assms] obtain r c a where
    r: "clicks App ls (render App) = Some r" "page r c a (items_after ?n)"
    by blast
  from r(2) have e: "entries r = items_after ?n" by (rule entries_page)
  have len: "length (entries r) = ?n + 1"
    by (simp only: e length_items_after)
  have len': "length (entries r) = min (count_list ls ''Aggiungi'' + 1) max_length"
    by (simp only: e length_items_after_min)
  have items: "items_of r = Some (entries r)"
    using r(2) by (simp add: e items_of_page)
  have nth: "\<forall>k. 2 \<le> k \<and> k \<le> length (entries r) \<longrightarrow>
           entries r ! (k - 1) = ''Elemento '' @ number_to_string k"
  proof (intro allI impI)
    fix k assume k: "2 \<le> k \<and> k \<le> length (entries r)"
    then have "1 \<le> k - 1" "k - 1 \<le> ?n" unfolding len by arith+
    then have "items_after ?n ! (k - 1) = ''Elemento '' @ number_to_string (k - 1 + 1)"
      by (rule nth_items_after(2))
    with k show "entries r ! (k - 1) = ''Elemento '' @ number_to_string k"
      by (simp add: e)
  qed
  have "[2..<length (entries r) + 1] = [2..<?n + 2]"
    by (simp only: len) simp
  then have all: "entries r =
     ''ALALALALA'' # map (\<lambda>k. ''Elemento '' @ number_to_string k) [2..<length (entries r) + 1]"
    using items_after_upt [of ?n] by (simp only: e [symmetric])
  have "distinct (entries r)"
    by (simp only: e distinct_items_after)
  with r(1) len' items nth all show ?thesis
    by blast
qed

theorem entries_by_position_witness:
  "set [''Aggiungi'', ''Aumenta'', ''Aggiungi''] \<subseteq> {''Aumenta'', ''Aggiungi''}
   \<and> (\<exists>r. clicks App [''Aggiungi'', ''Aumenta'', ''Aggiungi''] (render App) = Some r
        \<and> length (entries r) = 3
        \<and> entries r ! 1 = ''Elemento 2''
        \<and> entries r ! 2 = ''Elemento 3''
        \<and> distinct (entries r))"
proof
  show h: "set [''Aggiungi'', ''Aumenta'', ''Aggiungi''] \<subseteq> {''Aumenta'', ''Aggiungi''}"
    by simp
  from entries_by_position [OF h] obtain r where
    r: "clicks App [''Aggiungi'', ''Aumenta'', ''Aggiungi''] (render App) = Some r"
      "length (entries r) =
         min (count_list [''Aggiungi'', ''Aumenta'', ''Aggiungi''] ''Aggiungi'' + 1) max_length"
      "\<forall>k. 2 \<le> k \<and> k \<le> length (entries r) \<longrightarrow>
           entries r ! (k - 1) = ''Elemento '' @ number_to_string k"
      "distinct (entries r)"
    by blast
  from r(2) have len: "length (entries r) = 3" by (simp add: max_length_def)
  from r(3) have "2 \<le> (2::nat) \<and> 2 \<le> length (entries r) \<longrightarrow>
      entries r ! (2 - 1) = ''Elemento '' @ number_to_string 2"
    by (rule spec)
  with len have "entries r ! 1 = ''Elemento '' @ number_to_string 2"
    by simp
  moreover from r(3) have "2 \<le> (3::nat) \<and> 3 \<le> length (entries r) \<longrightarrow>
      entries r ! (3 - 1) = ''Elemento '' @ number_to_string 3"
    by (rule spec)
  with len have "entries r ! 2 = ''Elemento '' @ number_to_string 3"
    by simp
  ultimately show "\<exists>r. clicks App [''Aggiungi'', ''Aumenta'', ''Aggiungi''] (render App) = Some r
        \<and> length (entries r) = 3
        \<and> entries r ! 1 = ''Elemento 2''
        \<and> entries r ! 2 = ''Elemento 3''
        \<and> distinct (entries r)"
    using r(1,4) len by (simp add: to_string_eval)
qed

section \<open>The state of the counter\<close>

text \<open>
  C5, as amended: in every state that clicks reach, the count is an integer from 0 to
  \<open>2 ^ 53\<close>, namely the number of clicks on "Aumenta" so far, capped at \<open>2 ^ 53\<close>. It
  is 0 on the fresh page; rendering again and a click on "Aggiungi" leave it as it is;
  and a click on "Aumenta" sets it to the old value plus 1 as long as the old value is
  below \<open>2 ^ 53\<close>.
\<close>

theorem count_invariant:
  assumes "set ls \<subseteq> {''Aumenta'', ''Aggiungi''}"
  shows "\<exists>r c. clicks App ls (render App) = Some r
     \<and> count_of r = Some c
     \<and> c = min (count_list ls ''Aumenta'') (2 ^ 53)
     \<and> map_option count_of (render App) = Some (Some 0)
     \<and> map_option count_of (rerender App r) = Some (Some c)
     \<and> map_option count_of (click App ''Aggiungi'' r) = Some (Some c)
     \<and> map_option count_of (click App ''Aumenta'' r) =
         Some (Some (if c < 2 ^ 53 then c + 1 else c))"
proof -
  let ?c = "min (count_list ls ''Aumenta'') (2 ^ 53) :: nat"
  from reached_page [OF assms] obtain r a xs where
    r: "clicks App ls (render App) = Some r" "page r ?c a xs"
    by blast
  from r(2) have c: "count_of r = Some ?c" by (rule count_of_page)
  from render_App have init: "map_option count_of (render App) = Some (Some 0)"
    by (auto simp: count_of_page)
  from rerender_page [OF r(2)] have re: "map_option count_of (rerender App r) = Some (Some ?c)"
    by (auto simp: count_of_page)
  from click_Aggiungi [OF r(2)] have
    agg: "map_option count_of (click App ''Aggiungi'' r) = Some (Some ?c)"
    by (auto simp: count_of_page)
  have "plus_one ?c = (if ?c < 2 ^ 53 then ?c + 1 else ?c)"
    by (rule plus_one_le) simp
  with click_Aumenta [OF r(2)] have
    aum: "map_option count_of (click App ''Aumenta'' r) =
      Some (Some (if ?c < 2 ^ 53 then ?c + 1 else ?c))"
    by (auto simp: count_of_page)
  from r(1) c init re agg aum show ?thesis
    by blast
qed

theorem count_invariant_witness:
  "set [''Aumenta'', ''Aggiungi'', ''Aumenta''] \<subseteq> {''Aumenta'', ''Aggiungi''}
   \<and> (\<exists>r. clicks App [''Aumenta'', ''Aggiungi'', ''Aumenta''] (render App) = Some r
        \<and> count_of r = Some 2
        \<and> map_option count_of (click App ''Aggiungi'' r) = Some (Some 2)
        \<and> map_option count_of (click App ''Aumenta'' r) = Some (Some 3))"
proof
  show h: "set [''Aumenta'', ''Aggiungi'', ''Aumenta''] \<subseteq> {''Aumenta'', ''Aggiungi''}"
    by simp
  from count_invariant [OF h] obtain r c where
    r: "clicks App [''Aumenta'', ''Aggiungi'', ''Aumenta''] (render App) = Some r"
      "count_of r = Some c"
      "map_option count_of (click App ''Aggiungi'' r) = Some (Some c)"
      "map_option count_of (click App ''Aumenta'' r) = Some (Some (if c < 2 ^ 53 then c + 1 else c))"
    and c: "c = min (count_list [''Aumenta'', ''Aggiungi'', ''Aumenta''] ''Aumenta'') (2 ^ 53)"
    by blast
  from c have "c = 2" by simp
  with r have "clicks App [''Aumenta'', ''Aggiungi'', ''Aumenta''] (render App) = Some r"
    "count_of r = Some 2"
    "map_option count_of (click App ''Aggiungi'' r) = Some (Some 2)"
    "map_option count_of (click App ''Aumenta'' r) = Some (Some 3)"
    by simp_all
  then show "\<exists>r. clicks App [''Aumenta'', ''Aggiungi'', ''Aumenta''] (render App) = Some r
        \<and> count_of r = Some 2
        \<and> map_option count_of (click App ''Aggiungi'' r) = Some (Some 2)
        \<and> map_option count_of (click App ''Aumenta'' r) = Some (Some 3)"
    by blast
qed

text \<open>
  C5 as stated fails in the state that \<open>2 ^ 53\<close> clicks on "Aumenta" reach: the count is
  \<open>2 ^ 53 = 9007199254740992\<close> there, and after one more click it is still
  \<open>9007199254740992\<close>, not the old value plus 1.
\<close>

theorem count_plus_one_counterexample:
  "map_option count_of (clicks App (replicate (2 ^ 53) ''Aumenta'') (render App)) =
     Some (Some 9007199254740992)
   \<and> map_option count_of (clicks App (replicate (2 ^ 53 + 1) ''Aumenta'') (render App)) =
     Some (Some 9007199254740992)"
proof
  have "min (2 ^ 53) (2 ^ 53) = (9007199254740992::nat)" by simp
  moreover have "map_option count_of (clicks App (replicate (2 ^ 53) ''Aumenta'') (render App)) =
     Some (Some (min (2 ^ 53) (2 ^ 53)))"
    by (rule Aumenta_clicks_count)
  ultimately show "map_option count_of (clicks App (replicate (2 ^ 53) ''Aumenta'') (render App)) =
     Some (Some 9007199254740992)"
    by (simp only:)
  have "min (2 ^ 53 + 1) (2 ^ 53) = (9007199254740992::nat)" by simp
  moreover have "map_option count_of (clicks App (replicate (2 ^ 53 + 1) ''Aumenta'') (render App)) =
     Some (Some (min (2 ^ 53 + 1) (2 ^ 53)))"
    by (rule Aumenta_clicks_count)
  ultimately show "map_option count_of (clicks App (replicate (2 ^ 53 + 1) ''Aumenta'') (render App)) =
     Some (Some 9007199254740992)"
    by (simp only:)
qed

section \<open>The two components together\<close>

text \<open>
  C9: in every state that clicks reach, a click on "Aumenta" leaves the items of the list
  unchanged (the cell of \<open>Lista\<close>, the array it refers to, and the rendered entries), and
  a click on "Aggiungi" leaves the count and the displayed value unchanged.
\<close>

theorem cells_disjoint:
  assumes "set ls \<subseteq> {''Aumenta'', ''Aggiungi''}"
  shows "\<exists>r. clicks App ls (render App) = Some r
     \<and> count_of r \<noteq> None \<and> items_of r \<noteq> None
     \<and> map_option items_of (click App ''Aumenta'' r) = Some (items_of r)
     \<and> map_option (Lista_cell \<circ> mem) (click App ''Aumenta'' r) = Some (Lista_cell (mem r))
     \<and> map_option entries (click App ''Aumenta'' r) = Some (entries r)
     \<and> map_option count_of (click App ''Aggiungi'' r) = Some (count_of r)
     \<and> map_option valore (click App ''Aggiungi'' r) = Some (valore r)"
proof -
  from reached_page [OF assms] obtain r c a xs where
    r: "clicks App ls (render App) = Some r" "page r c a xs"
    by blast
  from click_Aumenta [OF r(2)] obtain r1 where
    r1: "click App ''Aumenta'' r = Some r1" "page r1 (plus_one c) a xs"
    by blast
  from click_Aggiungi [OF r(2)] obtain r2 a2 ys where
    r2: "click App ''Aggiungi'' r = Some r2" "page r2 c a2 ys"
    by blast
  have "count_of r \<noteq> None" "items_of r \<noteq> None"
    using r(2) by (simp_all add: count_of_page items_of_page)
  moreover have "map_option items_of (click App ''Aumenta'' r) = Some (items_of r)"
    using r(2) r1 by (simp add: items_of_page)
  moreover have "map_option (Lista_cell \<circ> mem) (click App ''Aumenta'' r) =
      Some (Lista_cell (mem r))"
    using r(2) r1 by (simp add: page_def mounted_def)
  moreover have "map_option entries (click App ''Aumenta'' r) = Some (entries r)"
    using r(2) r1 by (simp add: entries_page)
  moreover have "map_option count_of (click App ''Aggiungi'' r) = Some (count_of r)"
    using r(2) r2 by (simp add: count_of_page)
  moreover have "map_option valore (click App ''Aggiungi'' r) = Some (valore r)"
    using r(2) r2 by (simp add: valore_page)
  ultimately show ?thesis using r(1)
    by blast
qed

theorem cells_disjoint_witness:
  "set [''Aggiungi'', ''Aumenta''] \<subseteq> {''Aumenta'', ''Aggiungi''}
   \<and> (\<exists>r. clicks App [''Aggiungi'', ''Aumenta''] (render App) = Some r
        \<and> map_option entries (click App ''Aumenta'' r) = Some (entries r)
        \<and> map_option valore (click App ''Aggiungi'' r) = Some (valore r))"
proof
  show h: "set [''Aggiungi'', ''Aumenta''] \<subseteq> {''Aumenta'', ''Aggiungi''}"
    by simp
  from cells_disjoint [OF h]
  show "\<exists>r. clicks App [''Aggiungi'', ''Aumenta''] (render App) = Some r
        \<and> map_option entries (click App ''Aumenta'' r) = Some (entries r)
        \<and> map_option valore (click App ''Aggiungi'' r) = Some (valore r)"
    by blast
qed

text \<open>
  C6: in every state that clicks reach, rendering twice with no click in between gives
  the same tree both times, the tree already shown, and leaves the count and the items as
  they are. Two closures are the same when they have the same code and captured value.
\<close>

theorem render_twice:
  assumes "set ls \<subseteq> {''Aumenta'', ''Aggiungi''}"
  shows "\<exists>r r1 r2. clicks App ls (render App) = Some r
     \<and> rerender App r = Some r1 \<and> rerender App r1 = Some r2
     \<and> tree r1 = tree r2 \<and> tree r1 = tree r
     \<and> count_of r2 = count_of r \<and> items_of r2 = items_of r"
proof -
  from reached_page [OF assms] obtain r c a xs where
    r: "clicks App ls (render App) = Some r" "page r c a xs"
    by blast
  from rerender_page [OF r(2)] obtain r1 where
    r1: "rerender App r = Some r1" "page r1 c a xs"
    by blast
  from rerender_page [OF r1(2)] obtain r2 where
    r2: "rerender App r1 = Some r2" "page r2 c a xs"
    by blast
  from r(2) r1(2) r2(2) have "tree r1 = tree r2" "tree r1 = tree r"
    "count_of r2 = count_of r" "items_of r2 = items_of r"
    by (simp_all add: page_def count_of_def items_of_def mounted_def)
  with r(1) r1(1) r2(1) show ?thesis
    by blast
qed

theorem render_twice_witness:
  "set [''Aggiungi'', ''Aumenta''] \<subseteq> {''Aumenta'', ''Aggiungi''}
   \<and> (\<exists>r r1 r2. clicks App [''Aggiungi'', ''Aumenta''] (render App) = Some r
        \<and> rerender App r = Some r1 \<and> rerender App r1 = Some r2
        \<and> tree r1 = tree r2 \<and> tree r1 = tree r)"
proof
  show h: "set [''Aggiungi'', ''Aumenta''] \<subseteq> {''Aumenta'', ''Aggiungi''}"
    by simp
  from render_twice [OF h]
  show "\<exists>r r1 r2. clicks App [''Aggiungi'', ''Aumenta''] (render App) = Some r
        \<and> rerender App r = Some r1 \<and> rerender App r1 = Some r2
        \<and> tree r1 = tree r2 \<and> tree r1 = tree r"
    by blast
qed

text \<open>
  C7: in every state that clicks reach, a click on "Aggiungi" stores in the cell a
  reference to an array that did not exist before; the array the cell referred to, and
  every other array, keeps its content; and the list is rendered from the new array, with
  a handler that captured the new reference. The new array holds the old items followed
  by the new entry, or the old items alone when they were \<open>2 ^ 32 - 1\<close> already. A click
  on "Aumenta" stores the result of \<open>count + 1\<close> in the cell, changes no array, and the
  paragraph and the handler are rendered from the new count.
\<close>

theorem state_replaced:
  assumes "set ls \<subseteq> {''Aumenta'', ''Aggiungi''}"
  shows "\<exists>r c a xs. clicks App ls (render App) = Some r
     \<and> Counter_cell (mem r) = Some c \<and> Lista_cell (mem r) = Some a \<and> heap (mem r) a = Some xs
     \<and> length xs = min (count_list ls ''Aggiungi'' + 1) max_length
     \<and> (\<exists>r' a'. click App ''Aggiungi'' r = Some r'
           \<and> Lista_cell (mem r') = Some a' \<and> a' \<noteq> a \<and> heap (mem r) a' = None
           \<and> heap (mem r') a' =
               Some (if length xs < max_length
                     then xs @ [''Elemento '' @ number_to_string (length xs + 1)] else xs)
           \<and> heap (mem r') a = Some xs
           \<and> (\<forall>b ys. heap (mem r) b = Some ys \<longrightarrow> heap (mem r') b = Some ys)
           \<and> entries r' =
               (if length xs < max_length
                then xs @ [''Elemento '' @ number_to_string (length xs + 1)] else xs)
           \<and> handlers (tree r') = [Counter_onClick c, aggiungiElemento a'])
     \<and> (\<exists>r'. click App ''Aumenta'' r = Some r'
           \<and> Counter_cell (mem r') = Some (plus_one c)
           \<and> (\<forall>b ys. heap (mem r) b = Some ys \<longrightarrow> heap (mem r') b = Some ys)
           \<and> valore r' = [''Valore: '' @ number_to_string (plus_one c)]
           \<and> handlers (tree r') = [Counter_onClick (plus_one c), aggiungiElemento a])"
proof -
  let ?xs = "items_after (min (count_list ls ''Aggiungi'') (max_length - 1))"
  let ?ys = "if length ?xs < max_length
             then ?xs @ [''Elemento '' @ number_to_string (length ?xs + 1)] else ?xs"
  from reached_page [OF assms] obtain r c a where
    r: "clicks App ls (render App) = Some r" "page r c a ?xs"
    by blast
  have len: "length ?xs = min (count_list ls ''Aggiungi'' + 1) max_length"
    by (rule length_items_after_min)
  then have "length ?xs \<le> max_length" by simp
  then have grow: "spread_with ?xs (Elemento (plus_one (length ?xs))) = ?ys"
    by (rule spread_with_Elemento)
  from r(2) have cells: "Counter_cell (mem r) = Some c" "Lista_cell (mem r) = Some a"
    "heap (mem r) a = Some ?xs"
    by (simp_all add: page_def mounted_def)
  from click_Aggiungi [OF r(2)] obtain r1 a1 where
    r1: "click App ''Aggiungi'' r = Some r1" "page r1 c a1 ?ys"
      "a1 \<noteq> a" "heap (mem r) a1 = None" "kept (mem r) (mem r1)"
    unfolding grow by blast
  from r1(5) have k1: "\<forall>b ys. heap (mem r) b = Some ys \<longrightarrow> heap (mem r1) b = Some ys"
    by (simp add: kept_def)
  with cells(3) have old: "heap (mem r1) a = Some ?xs" by blast
  from r1(2) have new: "Lista_cell (mem r1) = Some a1" "heap (mem r1) a1 = Some ?ys"
    unfolding page_def mounted_def by blast+
  from r1(2) have shown1: "entries r1 = ?ys"
    "handlers (tree r1) = [Counter_onClick c, aggiungiElemento a1]"
    by (simp_all only: entries_page handlers_page)
  have A: "\<exists>r' a'. click App ''Aggiungi'' r = Some r'
           \<and> Lista_cell (mem r') = Some a' \<and> a' \<noteq> a \<and> heap (mem r) a' = None
           \<and> heap (mem r') a' = Some ?ys
           \<and> heap (mem r') a = Some ?xs
           \<and> (\<forall>b ys. heap (mem r) b = Some ys \<longrightarrow> heap (mem r') b = Some ys)
           \<and> entries r' = ?ys
           \<and> handlers (tree r') = [Counter_onClick c, aggiungiElemento a']"
    using r1(1,3,4) new old k1 shown1 by blast
  from click_Aumenta [OF r(2)] obtain r2 where
    r2: "click App ''Aumenta'' r = Some r2" "page r2 (plus_one c) a ?xs" "kept (mem r) (mem r2)"
    by blast
  from r2(3) have k2: "\<forall>b ys. heap (mem r) b = Some ys \<longrightarrow> heap (mem r2) b = Some ys"
    by (simp add: kept_def)
  from r2(2) have shown2: "Counter_cell (mem r2) = Some (plus_one c)"
    "valore r2 = [''Valore: '' @ number_to_string (plus_one c)]"
    "handlers (tree r2) = [Counter_onClick (plus_one c), aggiungiElemento a]"
    by (simp_all only: valore_page handlers_page) (simp add: page_def mounted_def)
  have B: "\<exists>r'. click App ''Aumenta'' r = Some r'
           \<and> Counter_cell (mem r') = Some (plus_one c)
           \<and> (\<forall>b ys. heap (mem r) b = Some ys \<longrightarrow> heap (mem r') b = Some ys)
           \<and> valore r' = [''Valore: '' @ number_to_string (plus_one c)]
           \<and> handlers (tree r') = [Counter_onClick (plus_one c), aggiungiElemento a]"
    using r2(1) k2 shown2 by blast
  from r(1) cells len A B show ?thesis
    by blast
qed

theorem state_replaced_witness:
  "set [''Aggiungi''] \<subseteq> {''Aumenta'', ''Aggiungi''}
   \<and> (\<exists>r a xs r' a'. clicks App [''Aggiungi''] (render App) = Some r
        \<and> Lista_cell (mem r) = Some a \<and> heap (mem r) a = Some xs
        \<and> click App ''Aggiungi'' r = Some r'
        \<and> Lista_cell (mem r') = Some a' \<and> a' \<noteq> a \<and> heap (mem r) a' = None
        \<and> heap (mem r') a = Some xs
        \<and> entries r' = xs @ [''Elemento '' @ number_to_string (length xs + 1)])"
proof
  show h: "set [''Aggiungi''] \<subseteq> {''Aumenta'', ''Aggiungi''}"
    by simp
  from state_replaced [OF h] obtain r a xs r' a' where
    r: "clicks App [''Aggiungi''] (render App) = Some r"
      "Lista_cell (mem r) = Some a" "heap (mem r) a = Some xs"
      "click App ''Aggiungi'' r = Some r'"
      "Lista_cell (mem r') = Some a'" "a' \<noteq> a" "heap (mem r) a' = None"
      "heap (mem r') a = Some xs"
    and len: "length xs = min (count_list [''Aggiungi''] ''Aggiungi'' + 1) max_length"
    and e: "entries r' =
       (if length xs < max_length
        then xs @ [''Elemento '' @ number_to_string (length xs + 1)] else xs)"
    by blast
  from len have "length xs < max_length" by (simp add: max_length_def)
  with e have "entries r' = xs @ [''Elemento '' @ number_to_string (length xs + 1)]"
    by simp
  with r
  show "\<exists>r a xs r' a'. clicks App [''Aggiungi''] (render App) = Some r
        \<and> Lista_cell (mem r) = Some a \<and> heap (mem r) a = Some xs
        \<and> click App ''Aggiungi'' r = Some r'
        \<and> Lista_cell (mem r') = Some a' \<and> a' \<noteq> a \<and> heap (mem r) a' = None
        \<and> heap (mem r') a = Some xs
        \<and> entries r' = xs @ [''Elemento '' @ number_to_string (length xs + 1)]"
    by blast
qed

end
